theory Spec2Isabelle
  imports Complex_Main "HOL-Library.AList" "HOL-Library.Char_ord" "HOL-Library.List_Lexorder"
begin

section \<open>prawcore.sessions: the retry strategy\<close>

text \<open>
  \<^verbatim>\<open>FiniteRetryStrategy\<close> has one attribute, \<^verbatim>\<open>_retries\<close>, a Python integer
  (unbounded, possibly negative). The constructor stores its argument (default 3).
\<close>

record FiniteRetryStrategy =
  retries :: int

definition FiniteRetryStrategy_init :: "int \<Rightarrow> FiniteRetryStrategy" where
  "FiniteRetryStrategy_init n = \<lparr>retries = n\<rparr>"

definition FiniteRetryStrategy_default :: FiniteRetryStrategy where
  "FiniteRetryStrategy_default = FiniteRetryStrategy_init 3"

text \<open>
  Python floats are IEEE 754 binary64 numbers. Every arithmetic operation returns the
  double nearest to the exact result, a tie going to the double with the even
  significand. For a result \<open>x\<close> with \<open>2\<^sup>e \<le> \<bar>x\<bar> < 2\<^sup>e\<^sup>+\<^sup>1\<close> the doubles around \<open>x\<close> are the
  multiples of \<open>2\<^sup>e\<^sup>-\<^sup>5\<^sup>2\<close>. Overflow and subnormal numbers are left out: the delays
  computed here are at most 4 and are multiples of \<open>2\<^sup>-\<^sup>5\<^sup>2\<close>.
\<close>

definition round_ties_even :: "real \<Rightarrow> int" where
  "round_ties_even x =
     (let f = \<lfloor>x\<rfloor> in
      if x - of_int f < 1/2 then f
      else if 1/2 < x - of_int f then f + 1
      else if even f then f else f + 1)"

definition round_double :: "real \<Rightarrow> real" where
  "round_double x =
     (if x = 0 then 0
      else (let ulp = 2 powr (of_int \<lfloor>log 2 \<bar>x\<bar>\<rfloor> - 52)
            in of_int (round_ties_even (x / ulp)) * ulp))"

text \<open>
  \<^verbatim>\<open>_sleep_seconds\<close>: the first argument is the value that \<^verbatim>\<open>random.random()\<close>
  returns, a double \<open>N / 2\<^sup>5\<^sup>3\<close> with \<open>0 \<le> N < 2\<^sup>5\<^sup>3\<close>; it is read only on the branch that
  computes a delay. The product \<^verbatim>\<open>2 * random.random()\<close> and the sum with \<^verbatim>\<open>base\<close> are
  each rounded to a double.
\<close>

definition sleep_seconds :: "real \<Rightarrow> FiniteRetryStrategy \<Rightarrow> real option" where
  "sleep_seconds u s =
     (if retries s < 3
      then (let base = (if retries s = 2 then 0 else 2)
            in Some (round_double (base + round_double (2 * u))))
      else None)"

definition consume_available_retry :: "FiniteRetryStrategy \<Rightarrow> FiniteRetryStrategy" where
  "consume_available_retry s = FiniteRetryStrategy_init (retries s - 1)"

definition should_retry_on_failure :: "FiniteRetryStrategy \<Rightarrow> bool" where
  "should_retry_on_failure s = (retries s > 1)"

text \<open>
  Strategy instances as objects: a store of instances addressed by position. The method
  \<^verbatim>\<open>consume_available_retry\<close> builds a new instance with \<^verbatim>\<open>type(self)(...)\<close>, which
  is an allocation at the end of the store; it returns the reference to the new instance.
  A receiver reference is valid when it points into the store.
\<close>

type_synonym strategy_store = "FiniteRetryStrategy list"

definition consume_available_retry_obj :: "nat \<Rightarrow> strategy_store \<Rightarrow> nat \<times> strategy_store" where
  "consume_available_retry_obj self st = (length st, st @ [consume_available_retry (st ! self)])"

section \<open>Values, responses and errors\<close>

text \<open>
  Python values that occur in request arguments and in decoded JSON. Nested values are
  owned by the value that holds them.
\<close>

datatype pyval =
    PNone
  | PBool bool
  | PInt int
  | PStr string
  | PList "pyval list"
  | PDict "(string \<times> pyval) list"

text \<open>
  A dictionary object: its items in insertion order, keys unique. Item assignment
  \<^verbatim>\<open>d[k] = v\<close> is \<^const>\<open>AList.update\<close>: it replaces the value of an
  existing key in place and appends a new key at the end.
\<close>

type_synonym pydict = "(string \<times> pyval) list"

text \<open>
  The response object of the \<^verbatim>\<open>requests\<close> library, as far as the session reads it:
  \<^verbatim>\<open>status_code\<close>, \<^verbatim>\<open>headers\<close> (header names in lower case), the body, and the
  outcome of the method \<^verbatim>\<open>json()\<close>, which is \<open>None\<close> when it raises \<^verbatim>\<open>ValueError\<close>.
\<close>

record response =
  status_code :: int
  headers :: "(string \<times> string) list"
  content :: string
  json :: "pyval option"

definition headers_get :: "response \<Rightarrow> string \<Rightarrow> string option" where
  "headers_get r k = map_of (headers r) k"

text \<open>
  The causes a \<^verbatim>\<open>RequestException\<close> can wrap (\<^verbatim>\<open>original_exception\<close>): the three
  classes of \<^verbatim>\<open>RETRY_EXCEPTIONS\<close>, or any other exception.
\<close>

datatype original_exception =
    ChunkedEncodingError
  | ConnectionError
  | ReadTimeout
  | OtherException string

datatype error =
    BadJSON response
  | BadRequest response
  | Conflict response
  | NotFound response
  | Redirect response
  | ServerError response
  | SpecialError response
  | TooLarge response
  | TooManyRequests response
  | UnavailableForLegalReasons response
  | URITooLong response
  | AuthorizationError response
  | RequestException original_exception
  | AssertionError int
  | AttributeError
  | CollaboratorError string

text \<open>
  Modelled from the spec: \<^verbatim>\<open>authorization_error_class\<close> (module \<^verbatim>\<open>prawcore.util\<close>) is
  not among the sources. The specification gives statuses 401 and 403 the error kind
  AuthorizationError, raised with the response attached.
\<close>

definition authorization_error_class :: "response \<Rightarrow> error" where
  "authorization_error_class r = AuthorizationError r"

section \<open>Status tables of the session\<close>

text \<open>
  The entries of \<^verbatim>\<open>requests.status_codes.codes\<close> that the session names. The table
  belongs to the \<^verbatim>\<open>requests\<close> library; these are its values.
\<close>

definition accepted :: int where "accepted = 202"
definition bad_gateway :: int where "bad_gateway = 502"
definition bad_request :: int where "bad_request = 400"
definition conflict :: int where "conflict = 409"
definition created :: int where "created = 201"
definition forbidden :: int where "forbidden = 403"
definition found :: int where "found = 302"
definition gateway_timeout :: int where "gateway_timeout = 504"
definition internal_server_error :: int where "internal_server_error = 500"
definition media_type :: int where "media_type = 415"
definition moved_permanently :: int where "moved_permanently = 301"
definition no_content :: int where "no_content = 204"
definition not_found :: int where "not_found = 404"
definition ok :: int where "ok = 200"
definition request_entity_too_large :: int where "request_entity_too_large = 413"
definition request_timeout :: int where "request_timeout = 408"
definition request_uri_too_large :: int where "request_uri_too_large = 414"
definition service_unavailable :: int where "service_unavailable = 503"
definition too_many_requests :: int where "too_many_requests = 429"
definition unauthorized :: int where "unauthorized = 401"
definition unavailable_for_legal_reasons :: int where "unavailable_for_legal_reasons = 451"

lemmas codes =
  accepted_def bad_gateway_def bad_request_def conflict_def created_def forbidden_def
  found_def gateway_timeout_def internal_server_error_def media_type_def
  moved_permanently_def no_content_def not_found_def ok_def request_entity_too_large_def
  request_timeout_def request_uri_too_large_def service_unavailable_def
  too_many_requests_def unauthorized_def unavailable_for_legal_reasons_def

definition RETRY_EXCEPTIONS :: "original_exception set" where
  "RETRY_EXCEPTIONS = {ChunkedEncodingError, ConnectionError, ReadTimeout}"

definition RETRY_STATUSES :: "int set" where
  "RETRY_STATUSES =
     {520, 522, bad_gateway, gateway_timeout, internal_server_error, request_timeout,
      service_unavailable}"

definition STATUS_EXCEPTIONS :: "int \<rightharpoonup> (response \<Rightarrow> error)" where
  "STATUS_EXCEPTIONS = map_of
     [(bad_gateway, ServerError),
      (bad_request, BadRequest),
      (conflict, Conflict),
      (found, Redirect),
      (forbidden, authorization_error_class),
      (gateway_timeout, ServerError),
      (internal_server_error, ServerError),
      (media_type, SpecialError),
      (moved_permanently, Redirect),
      (not_found, NotFound),
      (request_entity_too_large, TooLarge),
      (request_uri_too_large, URITooLong),
      (service_unavailable, ServerError),
      (too_many_requests, TooManyRequests),
      (unauthorized, authorization_error_class),
      (unavailable_for_legal_reasons, UnavailableForLegalReasons),
      (520, ServerError),
      (522, ServerError)]"

definition SUCCESS_STATUSES :: "int set" where
  "SUCCESS_STATUSES = {accepted, created, ok}"

section \<open>The session and its collaborators\<close>

text \<open>
  An argument of \<^verbatim>\<open>Session.request\<close> (\<^verbatim>\<open>data\<close>, \<^verbatim>\<open>files\<close>, \<^verbatim>\<open>json\<close>): \<^verbatim>\<open>None\<close>, a
  reference to a dictionary object in the store, a list of key/value pairs, or some
  other object (bytes, a file-like object), which the session hands on as it is.
\<close>

datatype pyarg =
    ANone
  | ADict nat
  | AItems "(string \<times> pyval) list"
  | AOther pyval

text \<open>The keyword arguments that \<^verbatim>\<open>_request_with_retries\<close> threads through every attempt.\<close>

record request_args =
  rq_data :: pyarg
  rq_files :: pyarg
  rq_json :: pyarg
  rq_method :: string
  rq_params :: nat
  rq_timeout :: real
  rq_url :: string

text \<open>
  Modelled from the spec: the authorizer (module \<^verbatim>\<open>prawcore.auth\<close>) is not among the
  sources. Its interface is \<^verbatim>\<open>is_valid\<close>, \<^verbatim>\<open>refresh\<close> (present only on variants that
  can refresh; raises if the grant cannot be renewed), \<^verbatim>\<open>_clear_access_token\<close> and
  \<^verbatim>\<open>access_token\<close>. The token is valid when one is cached.
\<close>

record authorizer =
  access_token :: "string option"
  has_refresh :: bool

definition is_valid :: "authorizer \<Rightarrow> bool" where
  "is_valid a = (access_token a \<noteq> None)"

text \<open>
  The mutable world of one session: the authorizer, the store of dictionary objects
  (addressed by position), the calls of \<^verbatim>\<open>time.sleep\<close> so far, the calls handed to the
  transport so far (headers and arguments), and how often the token was cleared and
  refreshed.
\<close>

record world =
  the_authorizer :: authorizer
  heap :: "pydict list"
  slept :: "real list"
  sent :: "((string \<times> string) list \<times> request_args) list"
  clear_calls :: nat
  refresh_calls :: nat

text \<open>
  What the session does not decide: the outcome of the \<open>n\<close>-th call of the transport (a
  response, or a raised exception), the \<open>n\<close>-th value of \<^verbatim>\<open>random.random()\<close>, the
  outcome of the \<open>n\<close>-th call of \<^verbatim>\<open>refresh\<close> (a new token, or a raised exception), the
  transport's base URL and \<^verbatim>\<open>urllib.parse.urljoin\<close>. The transport and \<^verbatim>\<open>refresh\<close> do
  not write to the store of dictionary objects.
\<close>

record env =
  transport :: "nat \<Rightarrow> error + response"
  random :: "nat \<Rightarrow> real"
  refresh_outcome :: "nat \<Rightarrow> error + string"
  oauth_url :: string
  urljoin :: "string \<Rightarrow> string \<Rightarrow> string"

text \<open>
  Modelled from the spec: \<^verbatim>\<open>_clear_access_token\<close> and \<^verbatim>\<open>refresh\<close> of the authorizer
  (module \<^verbatim>\<open>prawcore.auth\<close>, not among the sources). Clearing drops the cached token;
  a refresh either raises or caches the new token. Both count their calls.
\<close>

definition clear_access_token :: "world \<Rightarrow> world" where
  "clear_access_token w =
     w\<lparr>the_authorizer := (the_authorizer w)\<lparr>access_token := None\<rparr>,
       clear_calls := Suc (clear_calls w)\<rparr>"

definition refresh :: "env \<Rightarrow> world \<Rightarrow> (error + unit) \<times> world" where
  "refresh env w =
     (let w' = w\<lparr>refresh_calls := Suc (refresh_calls w)\<rparr> in
      case refresh_outcome env (refresh_calls w) of
        Inl e \<Rightarrow> (Inl e, w')
      | Inr t \<Rightarrow> (Inr (), w'\<lparr>the_authorizer := (the_authorizer w)\<lparr>access_token := Some t\<rparr>\<rparr>))"

text \<open>\<^verbatim>\<open>RetryStrategy.sleep\<close>: sleeps when \<^verbatim>\<open>_sleep_seconds\<close> gives a delay.\<close>

definition sleep :: "env \<Rightarrow> FiniteRetryStrategy \<Rightarrow> world \<Rightarrow> world" where
  "sleep env s w =
     (case sleep_seconds (random env (length (slept w))) s of
        None \<Rightarrow> w
      | Some sleep_secs \<Rightarrow> w\<lparr>slept := slept w @ [sleep_secs]\<rparr>)"

text \<open>
  \<^verbatim>\<open>_set_header_callback\<close>. The f-string renders a missing token as \<^verbatim>\<open>None\<close>.
\<close>

definition bearer :: "world \<Rightarrow> (string \<times> string) list" where
  "bearer w =
     [(''Authorization'',
       ''bearer '' @ (case access_token (the_authorizer w) of None \<Rightarrow> ''None'' | Some t \<Rightarrow> t))]"

definition set_header_callback :: "env \<Rightarrow> world \<Rightarrow> (error + (string \<times> string) list) \<times> world" where
  "set_header_callback env w =
     (if \<not> is_valid (the_authorizer w) \<and> has_refresh (the_authorizer w)
      then (case refresh env w of
              (Inl e, w') \<Rightarrow> (Inl e, w')
            | (Inr _, w') \<Rightarrow> (Inr (bearer w'), w'))
      else (Inr (bearer w), w))"

text \<open>
  Modelled from the spec: the rate limiter (module \<^verbatim>\<open>prawcore.rate_limit\<close>) is not
  among the sources. Its \<^verbatim>\<open>call\<close> performs one call of the transport, with the headers
  that the header callback returns; its throttling delay is not part of this model.
\<close>

definition rate_limiter_call :: "env \<Rightarrow> request_args \<Rightarrow> world \<Rightarrow> (error + response) \<times> world" where
  "rate_limiter_call env rq w =
     (case set_header_callback env w of
        (Inl e, w') \<Rightarrow> (Inl e, w')
      | (Inr hdrs, w') \<Rightarrow> (transport env (length (sent w')), w'\<lparr>sent := sent w' @ [(hdrs, rq)]\<rparr>))"

text \<open>
  \<^verbatim>\<open>_make_request\<close>: the pair \<^verbatim>\<open>(response, None)\<close> or \<^verbatim>\<open>(None, original_exception)\<close>;
  a \<^verbatim>\<open>RequestException\<close> is raised again unless the strategy permits a retry and the
  cause is one of \<^verbatim>\<open>RETRY_EXCEPTIONS\<close>; any other exception passes through.
\<close>

definition make_request ::
  "env \<Rightarrow> request_args \<Rightarrow> FiniteRetryStrategy \<Rightarrow> world
   \<Rightarrow> (error + response option \<times> original_exception option) \<times> world" where
  "make_request env rq retry_strategy_state w =
     (case rate_limiter_call env rq w of
        (Inr r, w') \<Rightarrow> (Inr (Some r, None), w')
      | (Inl (RequestException original), w') \<Rightarrow>
          (if \<not> should_retry_on_failure retry_strategy_state \<or> original \<notin> RETRY_EXCEPTIONS
           then (Inl (RequestException original), w')
           else (Inr (None, Some original), w'))
      | (Inl e, w') \<Rightarrow> (Inl e, w'))"

text \<open>
  \<^verbatim>\<open>_request_with_retries\<close>. The retry branch is \<^verbatim>\<open>_do_retry\<close>, which logs the cause and
  calls \<^verbatim>\<open>_request_with_retries\<close> again with the state that
  \<^verbatim>\<open>consume_available_retry\<close> returns. Reading \<^verbatim>\<open>status_code\<close> of a missing response
  would raise \<^verbatim>\<open>AttributeError\<close>.
\<close>

function request_with_retries ::
  "env \<Rightarrow> request_args \<Rightarrow> FiniteRetryStrategy \<Rightarrow> world \<Rightarrow> (error + pyval) \<times> world" where
  "request_with_retries env rq retry_strategy_state w =
     (case make_request env rq retry_strategy_state (sleep env retry_strategy_state w) of
        (Inl e, w1) \<Rightarrow> (Inl e, w1)
      | (Inr (resp, saved_exception), w1) \<Rightarrow>
          (let is_unauthorized =
                 (case resp of None \<Rightarrow> False | Some r \<Rightarrow> status_code r = unauthorized);
               w2 = (if is_unauthorized then clear_access_token w1 else w1);
               do_retry = (is_unauthorized \<and> has_refresh (the_authorizer w2))
           in if should_retry_on_failure retry_strategy_state
                 \<and> (do_retry
                    \<or> (case resp of None \<Rightarrow> True | Some r \<Rightarrow> status_code r \<in> RETRY_STATUSES))
              then request_with_retries env rq (consume_available_retry retry_strategy_state) w2
              else (case resp of
                      None \<Rightarrow> (Inl AttributeError, w2)
                    | Some r \<Rightarrow>
                        (case STATUS_EXCEPTIONS (status_code r) of
                           Some exception_class \<Rightarrow> (Inl (exception_class r), w2)
                         | None \<Rightarrow>
                             if status_code r = no_content then (Inr PNone, w2)
                             else if status_code r \<notin> SUCCESS_STATUSES
                               then (Inl (AssertionError (status_code r)), w2)
                             else if headers_get r ''content-length'' = Some ''0''
                               then (Inr (PStr ''''), w2)
                             else (case json r of
                                     Some decoded \<Rightarrow> (Inr decoded, w2)
                                   | None \<Rightarrow> (Inl (BadJSON r), w2))))))"
  by pat_completeness auto
termination
  by (relation "measure (\<lambda>(env, rq, s, w). nat (retries s))")
     (auto simp: should_retry_on_failure_def consume_available_retry_def
        FiniteRetryStrategy_init_def)

declare request_with_retries.simps [simp del]

text \<open>
  Operations on the store of dictionary objects. \<^verbatim>\<open>deepcopy\<close> of a dictionary builds a
  new object with equal items (nested values are owned by their dictionary, so they are
  copied with it); \<^verbatim>\<open>{}\<close> builds a new empty object; \<^verbatim>\<open>d[k] = v\<close> writes to the object
  that \<open>d\<close> refers to.
\<close>

definition deepcopy :: "nat \<Rightarrow> world \<Rightarrow> nat \<times> world" where
  "deepcopy a w = (length (heap w), w\<lparr>heap := heap w @ [heap w ! a]\<rparr>)"

definition new_dict :: "world \<Rightarrow> nat \<times> world" where
  "new_dict w = (length (heap w), w\<lparr>heap := heap w @ [[]]\<rparr>)"

definition setitem :: "nat \<Rightarrow> string \<Rightarrow> pyval \<Rightarrow> world \<Rightarrow> world" where
  "setitem a k v w = w\<lparr>heap := (heap w)[a := AList.update k v (heap w ! a)]\<rparr>"

text \<open>
  \<^verbatim>\<open>sorted(data.items())\<close> orders the pairs by key, strings compared character by
  character; the keys of a dictionary are distinct, so the values are never compared.
\<close>

definition sorted_items :: "nat \<Rightarrow> world \<Rightarrow> (string \<times> pyval) list" where
  "sorted_items a w = sort_key fst (heap w ! a)"

text \<open>
  \<^verbatim>\<open>Session.request\<close>, the three normalisation steps and the call of the retry loop.
  \<^verbatim>\<open>params\<close> is \<^verbatim>\<open>None\<close> or a reference to a dictionary; \<^verbatim>\<open>deepcopy(params) or {}\<close>
  takes a new empty dictionary when the copy is empty or \<^verbatim>\<open>params\<close> is \<^verbatim>\<open>None\<close>.
\<close>

definition normalize_params :: "nat option \<Rightarrow> world \<Rightarrow> nat \<times> world" where
  "normalize_params params w =
     (let (params1, w1) =
            (case params of
               None \<Rightarrow> new_dict w
             | Some p \<Rightarrow>
                 (let (c, w') = deepcopy p w
                  in if heap w' ! c = [] then new_dict w' else (c, w')))
      in (params1, setitem params1 ''raw_json'' (PInt 1) w1))"

definition normalize_data :: "pyarg \<Rightarrow> world \<Rightarrow> pyarg \<times> world" where
  "normalize_data data w =
     (case data of
        ADict d \<Rightarrow>
          (let (c, w') = deepcopy d w;
               w'' = setitem c ''api_type'' (PStr ''json'') w'
           in (AItems (sorted_items c w''), w''))
      | _ \<Rightarrow> (data, w))"

definition normalize_json :: "pyarg \<Rightarrow> world \<Rightarrow> pyarg \<times> world" where
  "normalize_json json_arg w =
     (case json_arg of
        ADict j \<Rightarrow>
          (let (c, w') = deepcopy j w
           in (ADict c, setitem c ''api_type'' (PStr ''json'') w'))
      | _ \<Rightarrow> (json_arg, w))"

text \<open>The retry state is the default one of the strategy class.\<close>

definition request ::
  "env \<Rightarrow> string \<Rightarrow> string \<Rightarrow> pyarg \<Rightarrow> pyarg \<Rightarrow> pyarg \<Rightarrow> nat option \<Rightarrow> real \<Rightarrow> world
   \<Rightarrow> (error + pyval) \<times> world" where
  "request env method path data files json_arg params timeout w =
     (let (params1, w1) = normalize_params params w;
          (data1, w2) = normalize_data data w1;
          (json1, w3) = normalize_json json_arg w2;
          url = urljoin env (oauth_url env) path
      in request_with_retries env
           \<lparr>rq_data = data1, rq_files = files, rq_json = json1, rq_method = method,
            rq_params = params1, rq_timeout = timeout, rq_url = url\<rparr>
           FiniteRetryStrategy_default w3)"

section \<open>Example inputs\<close>

text \<open>
  Concrete inputs for the closed theorems below: responses with a given status (no
  headers, an empty body, \<^verbatim>\<open>json()\<close> raising), a response with \<^verbatim>\<open>content-length: 0\<close>, a
  response with a JSON body, a transport that answers every call with the same response,
  a world whose authorizer holds a token and whose store holds the dictionary
  \<^verbatim>\<open>{"b": 2, "a": 1}\<close>, and the arguments of a \<^verbatim>\<open>GET\<close> request.
\<close>

definition r_status :: "int \<Rightarrow> response" where
  "r_status c = \<lparr>status_code = c, headers = [], content = [], json = None\<rparr>"

definition r_empty :: response where
  "r_empty = \<lparr>status_code = 200, headers = [(''content-length'', ''0'')], content = [],
              json = None\<rparr>"

definition r_json :: response where
  "r_json = \<lparr>status_code = 201, headers = [(''content-length'', ''2'')], content = ''{}'',
             json = Some (PDict [])\<rparr>"

definition env_const :: "response \<Rightarrow> env" where
  "env_const r =
     \<lparr>transport = (\<lambda>n. Inr r), random = (\<lambda>n. 1/2), refresh_outcome = (\<lambda>n. Inr ''fresh''),
      oauth_url = ''https://oauth.reddit.com'', urljoin = (\<lambda>b p. b @ p)\<rparr>"

definition world0 :: "bool \<Rightarrow> world" where
  "world0 b =
     \<lparr>the_authorizer = \<lparr>access_token = Some ''token'', has_refresh = b\<rparr>,
      heap = [[(''b'', PInt 2), (''a'', PInt 1)]], slept = [], sent = [],
      clear_calls = 0, refresh_calls = 0\<rparr>"

definition rq0 :: request_args where
  "rq0 = \<lparr>rq_data = ANone, rq_files = ANone, rq_json = ANone, rq_method = ''GET'',
          rq_params = 0, rq_timeout = 16, rq_url = ''https://oauth.reddit.com/api/v1/me''\<rparr>"

definition sent_once :: "world \<Rightarrow> world" where
  "sent_once w = w\<lparr>sent := sent w @ [([(''Authorization'', ''bearer token'')], rq0)]\<rparr>"

section \<open>Properties of the retry strategy\<close>

lemma retries_consume_pow:
  "retries ((consume_available_retry ^^ k) s) = retries s - int k"
  by (induction k) (simp_all add: consume_available_retry_def FiniteRetryStrategy_init_def)

text \<open>
  Rounding to a double: integers and half-integers, the binade \<open>[2, 4)\<close>, and the
  multiples of \<open>2\<^sup>-\<^sup>5\<^sup>2\<close> below 2, which are doubles and so are left as they are.
\<close>

lemma round_ties_even_of_int: "round_ties_even (of_int n) = n"
  by (simp add: round_ties_even_def)

lemma round_ties_even_half:
  "round_ties_even (of_int a + 1/2) = (if even a then a else a + 1)"
proof -
  have "\<lfloor>of_int a + (1/2::real)\<rfloor> = a" by (rule floor_unique) simp_all
  then show ?thesis by (simp add: round_ties_even_def)
qed

lemma floor_log2_24:
  assumes "2 \<le> x" and "x < 4"
  shows "\<lfloor>log 2 x\<rfloor> = 1"
proof (rule floor_unique)
  have "log 2 2 \<le> log 2 x" using assms by (simp del: log_eq_one)
  then show "of_int 1 \<le> log 2 x" by simp
  have "log 2 x < 2" using assms by (simp add: log_less_iff)
  then show "log 2 x < of_int 1 + 1" by simp
qed

lemma round_double_24:
  assumes "2 \<le> x" and "x < 4"
  shows "round_double x = of_int (round_ties_even (x * 2 ^ 51)) / 2 ^ 51"
proof -
  have p: "(2::real) powr (- 51) = 1 / 2 ^ 51"
    by (simp add: powr_minus_divide powr_realpow [symmetric])
  show ?thesis
    using assms by (simp add: round_double_def floor_log2_24 p)
qed

lemma round_double_exact:
  assumes "0 \<le> k" and "k < 2 ^ 53"
  shows "round_double (of_int k / 2 ^ 52) = of_int k / 2 ^ 52"
proof (cases "k = 0")
  case True
  then show ?thesis by (simp add: round_double_def)
next
  case False
  let ?x = "of_int k / 2 ^ 52 :: real"
  have pos: "0 < ?x" using assms False by simp
  have lt: "?x < 2"
  proof -
    have "(of_int k :: real) < 2 ^ 53" using assms(2) by (metis of_int_less_numeral_power_cancel_iff)
    then show ?thesis by (simp add: field_simps)
  qed
  define e where "e = \<lfloor>log 2 ?x\<rfloor>"
  have "log 2 ?x < 1" using pos lt by (simp add: log_less_iff)
  then have e0: "e \<le> 0" unfolding e_def by (simp add: floor_le_iff)
  define n where "n = nat (- e)"
  have en: "of_int e = - (of_nat n :: real)" using e0 by (simp add: n_def)
  have ulp: "(2::real) powr (of_int e - 52) = 1 / 2 ^ (n + 52)"
  proof -
    have "of_int e - (52::real) = - of_nat (n + 52)" by (simp add: en)
    then have "(2::real) powr (of_int e - 52) = 2 powr (- of_nat (n + 52))" by simp
    also have "\<dots> = 1 / 2 powr (of_nat (n + 52))" by (simp only: powr_minus_divide)
    also have "\<dots> = 1 / 2 ^ (n + 52)" by (simp only: powr_realpow [OF zero_less_numeral])
    finally show ?thesis .
  qed
  have q: "?x / (1 / 2 ^ (n + 52)) = of_int (k * 2 ^ n)"
    by (simp add: power_add)
  have xne: "(?x = 0) = False" and ab: "\<bar>?x\<bar> = ?x" using pos by simp_all
  have "round_double ?x = of_int (round_ties_even (?x / (1 / 2 ^ (n + 52)))) * (1 / 2 ^ (n + 52))"
    by (simp only: round_double_def xne if_False Let_def ab e_def [symmetric] ulp)
  also have "\<dots> = of_int (k * 2 ^ n) * (1 / 2 ^ (n + 52))"
    by (simp only: q round_ties_even_of_int)
  also have "\<dots> = ?x" by (simp add: power_add)
  finally show ?thesis .
qed

lemma double_sum_2:
  assumes "0 \<le> N" and "N < 2 ^ 53"
  shows "round_double (2 + round_double (2 * (of_int N / 2 ^ 53)))
       = of_int (if even N then 2 ^ 52 + N div 2
                 else if even (N div 2) then 2 ^ 52 + N div 2
                 else 2 ^ 52 + N div 2 + 1) / 2 ^ 51"
proof -
  have tu: "2 * (of_int N / 2 ^ 53) = (of_int N / 2 ^ 52 :: real)" by simp
  have r1: "round_double (2 * (of_int N / 2 ^ 53)) = of_int N / 2 ^ 52"
    by (simp only: tu round_double_exact [OF assms])
  let ?x = "2 + of_int N / 2 ^ 52 :: real"
  have n0: "(0::real) \<le> of_int N" using assms(1) by simp
  have n1: "(of_int N :: real) < 2 ^ 53"
    using assms(2) by (metis of_int_less_numeral_power_cancel_iff)
  have x2: "2 \<le> ?x" using n0 by simp
  have x4: "?x < 4" using n1 by (simp add: field_simps)
  have d: "round_double ?x = of_int (round_ties_even (?x * 2 ^ 51)) / 2 ^ 51"
    by (rule round_double_24 [OF x2 x4])
  show ?thesis
  proof (cases "even N")
    case True
    then obtain m where m: "N = 2 * m" by (elim evenE)
    have "?x * 2 ^ 51 = of_int (2 ^ 52 + m)" by (simp add: m)
    then have "round_ties_even (?x * 2 ^ 51) = 2 ^ 52 + m"
      by (simp only: round_ties_even_of_int)
    then show ?thesis using True by (simp only: r1 d) (simp add: m)
  next
    case False
    then obtain m where m: "N = 2 * m + 1" by (elim oddE)
    have "?x * 2 ^ 51 = of_int (2 ^ 52 + m) + 1 / 2" by (simp add: m field_simps)
    then have "round_ties_even (?x * 2 ^ 51) = (if even (2 ^ 52 + m) then 2 ^ 52 + m else 2 ^ 52 + m + 1)"
      by (simp only: round_ties_even_half)
    moreover have "N div 2 = m" by (simp add: m)
    ultimately show ?thesis using False by (simp only: r1 d) simp
  qed
qed

lemma double_sum_2_bounds:
  fixes N :: int
  assumes "0 \<le> N" and "N < 2 ^ 53"
  defines "r \<equiv> (if even N then 2 ^ 52 + N div 2
                 else if even (N div 2) then 2 ^ 52 + N div 2
                 else 2 ^ 52 + N div 2 + 1)"
  shows "2 ^ 52 \<le> r" and "r \<le> 2 ^ 53" and "\<bar>2 * r - 2 ^ 53 - N\<bar> \<le> 1"
    and "even N \<longrightarrow> 2 * r = 2 ^ 53 + N" and "r = 2 ^ 53 \<longleftrightarrow> N = 2 ^ 53 - 1"
    and "odd N \<longrightarrow> even r"
proof -
  have N: "0 \<le> N" "N < 9007199254740992" using assms(1,2) by simp_all
  show "2 ^ 52 \<le> r" using N unfolding r_def by simp
  show "r \<le> 2 ^ 53" using N unfolding r_def by (simp split: if_splits) presburger
  show "\<bar>2 * r - 2 ^ 53 - N\<bar> \<le> 1" using N unfolding r_def by (simp split: if_splits) presburger
  show "even N \<longrightarrow> 2 * r = 2 ^ 53 + N" using N unfolding r_def by (simp split: if_splits)
  show "r = 2 ^ 53 \<longleftrightarrow> N = 2 ^ 53 - 1" using N unfolding r_def by (simp split: if_splits) presburger
  show "odd N \<longrightarrow> even r" unfolding r_def by simp
qed

lemma round_double_1: "round_double 1 = 1"
  using round_double_exact [of "2 ^ 52"] by simp

lemma round_double_3: "round_double 3 = 3"
proof -
  have "(3::real) * 2 ^ 51 = of_int (3 * 2 ^ 51)" by simp
  then have "round_ties_even (3 * 2 ^ 51) = 3 * 2 ^ 51"
    by (simp only: round_ties_even_of_int)
  then show ?thesis by (simp add: round_double_24)
qed

lemma sleep_seconds_half:
  "sleep_seconds (1/2) s = (if retries s < 3 then Some (if retries s = 2 then 1 else 3) else None)"
  by (simp add: sleep_seconds_def round_double_1 round_double_3)

text \<open>
  C1 (as the code has it). The delay schedule of \<^verbatim>\<open>_sleep_seconds\<close> for a random draw
  \<open>u = N / 2\<^sup>5\<^sup>3\<close> with \<open>0 \<le> N < 2\<^sup>5\<^sup>3\<close>: no delay when \<open>retries \<ge> 3\<close>; the delay
  \<open>2u\<close>, which is in \<open>[0, 2)\<close>, when \<open>retries = 2\<close>; when \<open>retries \<le> 1\<close>, the double nearest
  to \<open>2 + 2u\<close>: a multiple \<open>j / 2\<^sup>5\<^sup>1\<close> within \<open>2\<^sup>-\<^sup>5\<^sup>2\<close> of \<open>2 + 2u\<close>, equal to it
  when \<open>N\<close> is even and with \<open>j\<close> even when \<open>N\<close> is odd (the tie). That delay is in
  \<open>[2, 4]\<close>, and it is exactly 4 at the largest draw \<open>N = 2\<^sup>5\<^sup>3 - 1\<close> and only there.
\<close>

theorem sleep_seconds_schedule:
  fixes N :: int
  assumes "0 \<le> N" and "N < 2 ^ 53" and "u = of_int N / 2 ^ 53"
  shows "(3 \<le> retries s \<longrightarrow> sleep_seconds u s = None)
       \<and> (retries s = 2 \<longrightarrow> sleep_seconds u s = Some (2 * u) \<and> 0 \<le> 2 * u \<and> 2 * u < 2)
       \<and> (retries s \<le> 1 \<longrightarrow>
            (\<exists>d j. sleep_seconds u s = Some d \<and> d = of_int j / 2 ^ 51
                 \<and> \<bar>d - (2 + 2 * u)\<bar> \<le> 1 / 2 ^ 52
                 \<and> (even N \<longrightarrow> d = 2 + 2 * u) \<and> (odd N \<longrightarrow> even j)
                 \<and> 2 \<le> d \<and> d \<le> 4 \<and> (d = 4 \<longleftrightarrow> N = 2 ^ 53 - 1)))"
proof (intro conjI impI)
  assume "3 \<le> retries s"
  then show "sleep_seconds u s = None" by (simp add: sleep_seconds_def)
next
  have tu: "2 * u = of_int N / 2 ^ 52" by (simp add: assms(3))
  have n0: "(0::real) \<le> of_int N" using assms(1) by simp
  have n1: "(of_int N :: real) < 2 ^ 53"
    using assms(2) by (metis of_int_less_numeral_power_cancel_iff)
  have ex: "round_double (2 * u) = 2 * u"
    by (simp only: tu round_double_exact [OF assms(1,2)])
  assume "retries s = 2"
  then show "sleep_seconds u s = Some (2 * u)"
    by (simp add: sleep_seconds_def ex del: mult_2) 
  show "0 \<le> 2 * u" using n0 by (simp add: tu)
  have "of_int N / 2 ^ 52 < (2::real)" using n1 by (simp add: field_simps)
  then show "2 * u < 2" by (simp only: tu)
next
  define r where "r = (if even N then 2 ^ 52 + N div 2
                 else if even (N div 2) then 2 ^ 52 + N div 2
                 else 2 ^ 52 + N div 2 + 1)"
  define d where "d = (of_int r / 2 ^ 51 :: real)"
  note b = double_sum_2_bounds [OF assms(1,2), folded r_def]
  have tu: "2 + 2 * u = (2 ^ 53 + of_int N) / 2 ^ 52"
    unfolding assms(3) by (simp add: field_simps)
  assume "retries s \<le> 1"
  then have "sleep_seconds u s = Some (round_double (2 + round_double (2 * u)))"
    by (simp add: sleep_seconds_def)
  moreover have "round_double (2 + round_double (2 * u)) = d"
    unfolding assms(3) d_def r_def by (rule double_sum_2 [OF assms(1,2)])
  ultimately have 1: "sleep_seconds u s = Some d" by simp
  define z where "z = 2 * r - 2 ^ 53 - N"
  have "\<bar>of_int z\<bar> \<le> (1::real)"
    using b(3) unfolding z_def by (metis of_int_abs of_int_le_1_iff)
  then have "\<bar>of_int z / (2 ^ 52 :: real)\<bar> \<le> 1 / 2 ^ 52" by simp
  moreover have "d - (2 + 2 * u) = of_int z / 2 ^ 52"
    unfolding tu d_def z_def by (simp add: field_simps)
  ultimately have 2: "\<bar>d - (2 + 2 * u)\<bar> \<le> 1 / 2 ^ 52"
    by (simp only:)
  have 3: "even N \<longrightarrow> d = 2 + 2 * u"
  proof
    assume "even N"
    with b(4) have "(of_int (2 * r) :: real) = of_int (2 ^ 53 + N)" by simp
    then show "d = 2 + 2 * u" unfolding tu d_def by (simp add: field_simps)
  qed
  have "(of_int (2 ^ 52) :: real) \<le> of_int r" using b(1) by (simp only: of_int_le_iff)
  then have 4: "2 \<le> d" by (simp add: d_def field_simps)
  have "(of_int r :: real) \<le> of_int (2 ^ 53)" using b(2) by (simp only: of_int_le_iff)
  then have 5: "d \<le> 4" by (simp add: d_def field_simps)
  have "d = 4 \<longleftrightarrow> (of_int r :: real) = of_int (2 ^ 53)" by (simp add: d_def field_simps)
  also have "\<dots> \<longleftrightarrow> r = 2 ^ 53" by (simp only: of_int_eq_iff)
  finally have 6: "d = 4 \<longleftrightarrow> N = 2 ^ 53 - 1" using b(5) by simp
  from 1 2 3 4 5 6 b(6) show "\<exists>d j. sleep_seconds u s = Some d \<and> d = of_int j / 2 ^ 51
                 \<and> \<bar>d - (2 + 2 * u)\<bar> \<le> 1 / 2 ^ 52
                 \<and> (even N \<longrightarrow> d = 2 + 2 * u) \<and> (odd N \<longrightarrow> even j)
                 \<and> 2 \<le> d \<and> d \<le> 4 \<and> (d = 4 \<longleftrightarrow> N = 2 ^ 53 - 1)"
    unfolding d_def by blast
qed

theorem sleep_seconds_schedule_witness:
  "sleep_seconds (1/2) (FiniteRetryStrategy_init 3) = None
   \<and> sleep_seconds (1/2) (FiniteRetryStrategy_init 2) = Some 1
   \<and> (\<exists>d j. sleep_seconds (1/2) (FiniteRetryStrategy_init 1) = Some d \<and> d = of_int j / 2 ^ 51
          \<and> \<bar>d - 3\<bar> \<le> 1 / 2 ^ 52 \<and> d = 3 \<and> 2 \<le> d \<and> d \<le> 4 \<and> d \<noteq> 4)
   \<and> (\<exists>d j. sleep_seconds ((2 ^ 53 - 1) / 2 ^ 53) (FiniteRetryStrategy_init 0) = Some d
          \<and> d = of_int j / 2 ^ 51 \<and> \<bar>d - (4 - 1 / 2 ^ 52)\<bar> \<le> 1 / 2 ^ 52 \<and> even j \<and> d = 4)"
proof -
  have a: "(0::int) \<le> 2 ^ 52" "(2::int) ^ 52 < 2 ^ 53" "(1/2::real) = of_int (2 ^ 52) / 2 ^ 53"
    by simp_all
  have b: "(0::int) \<le> 2 ^ 53 - 1" "(2::int) ^ 53 - 1 < 2 ^ 53"
    "((2 ^ 53 - 1) / 2 ^ 53 :: real) = of_int (2 ^ 53 - 1) / 2 ^ 53"
    by simp_all
  show ?thesis
    using sleep_seconds_schedule [OF a, of "FiniteRetryStrategy_init 3"]
          sleep_seconds_schedule [OF a, of "FiniteRetryStrategy_init 2"]
          sleep_seconds_schedule [OF a, of "FiniteRetryStrategy_init 1"]
          sleep_seconds_schedule [OF b, of "FiniteRetryStrategy_init 0"]
    by (auto simp: FiniteRetryStrategy_init_def)
qed

text \<open>
  C1 (as the specification words it) fails at each of its three cases, here with the
  random draw \<open>1/2\<close>: with \<open>retries = 3\<close> there is no delay at all, with \<open>retries = 2\<close>
  the delay is \<open>1\<close>, outside \<open>[2, 4)\<close>, and with \<open>retries = 1\<close> a delay of \<open>3\<close> is
  returned instead of \<^verbatim>\<open>None\<close>. The interval \<open>[2, 4)\<close> does not hold for the later state
  either: with \<open>retries = 1\<close> and the largest draw \<open>1 - 2\<^sup>-\<^sup>5\<^sup>3\<close> the sum rounds to the
  delay 4.
\<close>

theorem sleep_seconds_counterexample:
  "sleep_seconds (1/2) (FiniteRetryStrategy_init 3) = None
   \<and> sleep_seconds (1/2) (FiniteRetryStrategy_init 2) = Some 1
   \<and> sleep_seconds (1/2) (FiniteRetryStrategy_init 1) = Some 3
   \<and> sleep_seconds ((2 ^ 53 - 1) / 2 ^ 53) (FiniteRetryStrategy_init 1) = Some 4"
proof -
  have "round_double (2 + round_double (2 * (of_int (2 ^ 53 - 1) / 2 ^ 53))) = 4"
    by (subst double_sum_2) simp_all
  then have "sleep_seconds ((2 ^ 53 - 1) / 2 ^ 53) (FiniteRetryStrategy_init 1) = Some 4"
    by (simp add: sleep_seconds_def FiniteRetryStrategy_init_def)
  then show ?thesis
    by (simp add: sleep_seconds_half FiniteRetryStrategy_init_def)
qed

text \<open>
  C8. \<^verbatim>\<open>should_retry_on_failure\<close> is true exactly when \<open>retries > 1\<close>; a strategy
  constructed with \<open>retries = 1\<close> does not permit a retry, and neither does any state
  obtained from it by consuming retries.
\<close>

theorem should_retry_on_failure_iff:
  "should_retry_on_failure s = (1 < retries s)
   \<and> \<not> should_retry_on_failure ((consume_available_retry ^^ k) (FiniteRetryStrategy_init 1))"
  by (simp add: should_retry_on_failure_def retries_consume_pow FiniteRetryStrategy_init_def)

text \<open>
  C9. For a valid receiver reference \<open>self\<close>, \<^verbatim>\<open>consume_available_retry\<close> returns a
  reference to a new instance (different from every instance that existed) whose
  \<open>retries\<close> is the receiver's minus 1, and every instance that existed, the receiver
  included, is unchanged. A second call on the same receiver gives a second new instance,
  different from the first, again with the receiver's \<open>retries\<close> minus 1, and changes
  neither the receiver nor the first result.
\<close>

theorem consume_available_retry_fresh:
  assumes "self < length st"
    and "consume_available_retry_obj self st = (a1, st1)"
    and "consume_available_retry_obj self st1 = (a2, st2)"
  shows "retries (st1 ! a1) = retries (st ! self) - 1
       \<and> retries (st2 ! a2) = retries (st ! self) - 1
       \<and> retries (st2 ! a1) = retries (st ! self) - 1
       \<and> a1 \<noteq> a2 \<and> a1 \<noteq> self \<and> a2 \<noteq> self
       \<and> take (length st) st1 = st \<and> take (length st) st2 = st
       \<and> st2 ! self = st ! self"
proof -
  let ?c = "consume_available_retry (st ! self)"
  from assms(2) have a1: "a1 = length st" and st1: "st1 = st @ [?c]"
    by (simp_all add: consume_available_retry_obj_def)
  have self1: "st1 ! self = st ! self"
    using assms(1) by (simp add: st1 nth_append)
  from assms(3) have a2: "a2 = Suc (length st)" and st2: "st2 = st @ [?c, ?c]"
    by (simp_all add: consume_available_retry_obj_def self1) (simp_all add: st1)
  have r: "retries ?c = retries (st ! self) - 1"
    by (simp add: consume_available_retry_def FiniteRetryStrategy_init_def)
  show ?thesis
    using assms(1) r by (simp add: a1 a2 st1 st2 nth_append)
qed

theorem consume_available_retry_fresh_witness:
  "consume_available_retry_obj 0 [FiniteRetryStrategy_init 3]
     = (1, [FiniteRetryStrategy_init 3, FiniteRetryStrategy_init 2])
   \<and> consume_available_retry_obj 0 [FiniteRetryStrategy_init 3, FiniteRetryStrategy_init 2]
     = (2, [FiniteRetryStrategy_init 3, FiniteRetryStrategy_init 2, FiniteRetryStrategy_init 2])
   \<and> retries ([FiniteRetryStrategy_init 3, FiniteRetryStrategy_init 2, FiniteRetryStrategy_init 2] ! 2) = 2
   \<and> [FiniteRetryStrategy_init 3, FiniteRetryStrategy_init 2, FiniteRetryStrategy_init 2] ! 0
     = FiniteRetryStrategy_init 3"
proof -
  have v: "(0::nat) < length [FiniteRetryStrategy_init 3]" by simp
  have c1: "consume_available_retry_obj 0 [FiniteRetryStrategy_init 3]
     = (1, [FiniteRetryStrategy_init 3, FiniteRetryStrategy_init 2])"
    by (simp add: consume_available_retry_obj_def consume_available_retry_def
        FiniteRetryStrategy_init_def)
  have c2: "consume_available_retry_obj 0 [FiniteRetryStrategy_init 3, FiniteRetryStrategy_init 2]
     = (2, [FiniteRetryStrategy_init 3, FiniteRetryStrategy_init 2, FiniteRetryStrategy_init 2])"
    by (simp add: consume_available_retry_obj_def consume_available_retry_def
        FiniteRetryStrategy_init_def)
  show ?thesis
    using consume_available_retry_fresh [OF v c1 c2] c1 c2
    by (simp add: FiniteRetryStrategy_init_def)
qed

section \<open>One attempt of the retry loop\<close>

text \<open>
  The equation of \<^const>\<open>request_with_retries\<close>, split by the outcome of
  \<^const>\<open>make_request\<close>: an exception, a saved transport failure, or a response.
\<close>

lemma rwr_raise:
  "make_request env rq s (sleep env s w) = (Inl e, w1)
   \<Longrightarrow> request_with_retries env rq s w = (Inl e, w1)"
  by (subst request_with_retries.simps) simp

lemma rwr_saved:
  "make_request env rq s (sleep env s w) = (Inr (None, sv), w1)
   \<Longrightarrow> request_with_retries env rq s w =
       (if should_retry_on_failure s
        then request_with_retries env rq (consume_available_retry s) w1
        else (Inl AttributeError, w1))"
  by (subst request_with_retries.simps) simp

lemma rwr_response:
  "make_request env rq s (sleep env s w) = (Inr (Some r, sv), w1)
   \<Longrightarrow> request_with_retries env rq s w =
       (let w2 = (if status_code r = unauthorized then clear_access_token w1 else w1)
        in if should_retry_on_failure s
              \<and> (status_code r = unauthorized \<and> has_refresh (the_authorizer w2)
                 \<or> status_code r \<in> RETRY_STATUSES)
           then request_with_retries env rq (consume_available_retry s) w2
           else (case STATUS_EXCEPTIONS (status_code r) of
                   Some exception_class \<Rightarrow> (Inl (exception_class r), w2)
                 | None \<Rightarrow>
                     if status_code r = no_content then (Inr PNone, w2)
                     else if status_code r \<notin> SUCCESS_STATUSES
                       then (Inl (AssertionError (status_code r)), w2)
                     else if headers_get r ''content-length'' = Some ''0''
                       then (Inr (PStr ''''), w2)
                     else (case json r of
                             Some decoded \<Rightarrow> (Inr decoded, w2)
                           | None \<Rightarrow> (Inl (BadJSON r), w2))))"
  by (subst request_with_retries.simps) (auto simp: Let_def split: option.splits)

lemma clear_access_token_simps:
  "clear_calls (clear_access_token w) = Suc (clear_calls w)"
  "access_token (the_authorizer (clear_access_token w)) = None"
  "has_refresh (the_authorizer (clear_access_token w)) = has_refresh (the_authorizer w)"
  "refresh_calls (clear_access_token w) = refresh_calls w"
  "heap (clear_access_token w) = heap w"
  "sent (clear_access_token w) = sent w"
  by (simp_all add: clear_access_token_def)



lemma rwr_unauthorized:
  assumes "make_request env rq s (sleep env s w) = (Inr (Some r, sv), w1)"
    and "status_code r = 401"
  shows "request_with_retries env rq s w =
       (if should_retry_on_failure s \<and> has_refresh (the_authorizer w1)
        then request_with_retries env rq (consume_available_retry s) (clear_access_token w1)
        else (Inl (AuthorizationError r), clear_access_token w1))"
  using assms(2)
  by (simp add: rwr_response [OF assms(1)] clear_access_token_simps Let_def
      RETRY_STATUSES_def STATUS_EXCEPTIONS_def authorization_error_class_def codes)

lemma rwr_terminal:
  assumes "make_request env rq s (sleep env s w) = (Inr (Some r, sv), w1)"
    and "status_code r \<noteq> 401"
    and "\<not> should_retry_on_failure s \<or> status_code r \<notin> RETRY_STATUSES"
  shows "request_with_retries env rq s w =
       (case STATUS_EXCEPTIONS (status_code r) of
          Some exception_class \<Rightarrow> (Inl (exception_class r), w1)
        | None \<Rightarrow>
            if status_code r = 204 then (Inr PNone, w1)
            else if status_code r \<notin> {202, 201, 200}
              then (Inl (AssertionError (status_code r)), w1)
            else if headers_get r ''content-length'' = Some ''0''
              then (Inr (PStr ''''), w1)
            else (case json r of
                    Some decoded \<Rightarrow> (Inr decoded, w1)
                  | None \<Rightarrow> (Inl (BadJSON r), w1)))"
  using assms(2,3)
  by (auto simp: rwr_response [OF assms(1)] unauthorized_def no_content_def
      SUCCESS_STATUSES_def accepted_def created_def ok_def)

text \<open>Unfolding sets for evaluating the model on the example inputs.\<close>

lemmas run_defs =
  make_request_def rate_limiter_call_def set_header_callback_def refresh_def sleep_def
  sleep_seconds_half bearer_def is_valid_def clear_access_token_def
  should_retry_on_failure_def consume_available_retry_def FiniteRetryStrategy_init_def
  FiniteRetryStrategy_default_def RETRY_STATUSES_def RETRY_EXCEPTIONS_def
  STATUS_EXCEPTIONS_def SUCCESS_STATUSES_def headers_get_def authorization_error_class_def
  codes Let_def

lemmas request_defs =
  request_def normalize_params_def normalize_data_def normalize_json_def deepcopy_def
  new_dict_def setitem_def sorted_items_def

lemmas example_defs = env_const_def r_status_def world0_def r_empty_def r_json_def sent_once_def

lemma make_request_example:
  "make_request (env_const r) rq0 s (sleep (env_const r) s (world0 b))
   = (Inr (Some r, None), sent_once (sleep (env_const r) s (world0 b)))"
  by (simp add: run_defs example_defs split: option.splits)

section \<open>The caller's dictionaries\<close>

text \<open>
  Sleeping, the header callback, the rate limiter and one attempt do not write to the
  store of dictionary objects; neither does the retry loop as a whole.
\<close>

lemma sleep_heap: "heap (sleep env s w) = heap w"
  by (simp add: sleep_def split: option.splits)

lemma set_header_callback_heap: "set_header_callback env w = (r, w') \<Longrightarrow> heap w' = heap w"
  by (auto simp: set_header_callback_def refresh_def Let_def split: sum.splits prod.splits if_splits)

lemma rate_limiter_call_heap: "rate_limiter_call env rq w = (r, w') \<Longrightarrow> heap w' = heap w"
  by (auto simp: rate_limiter_call_def split: sum.splits prod.splits dest: set_header_callback_heap)

lemma make_request_heap: "make_request env rq s w = (r, w') \<Longrightarrow> heap w' = heap w"
  unfolding make_request_def
  by (cases "rate_limiter_call env rq w")
     (auto split: sum.splits error.splits if_splits dest: rate_limiter_call_heap)

lemma request_with_retries_heap: "heap (snd (request_with_retries env rq s w)) = heap w"
proof (induction env rq s w rule: request_with_retries.induct)
  case (1 env rq s w)
  obtain res w1 where mr: "make_request env rq s (sleep env s w) = (res, w1)"
    by (cases "make_request env rq s (sleep env s w)")
  have h1: "heap w1 = heap w"
    using make_request_heap [OF mr] by (simp add: sleep_heap)
  show ?case
  proof (cases res)
    case (Inl e)
    then show ?thesis using mr h1 by (simp add: rwr_raise)
  next
    case (Inr p)
    obtain resp sv where p: "p = (resp, sv)" by (cases p)
    show ?thesis
    proof (cases resp)
      case None
      with 1 [OF mr [symmetric] Inr p [symmetric] refl refl refl] mr Inr p h1
      show ?thesis by (auto simp: rwr_saved)
    next
      case (Some r)
      with 1 [OF mr [symmetric] Inr p [symmetric] refl refl refl] mr Inr p h1
      show ?thesis
        by (auto simp: rwr_response Let_def clear_access_token_simps split: option.splits)
    qed
  qed
qed

text \<open>
  Each normalisation step only appends new objects to the store and changes nothing else
  of the world.
\<close>

lemma normalize_params_frame:
  assumes "normalize_params params w = (a, w')"
  shows "\<exists>ys. heap w' = heap w @ ys \<and> w'\<lparr>heap := heap w\<rparr> = w"
proof (cases params)
  case None
  with assms show ?thesis
    by (auto simp: normalize_params_def new_dict_def setitem_def)
next
  case (Some p)
  show ?thesis
  proof (cases "heap w ! p = []")
    case True
    with assms Some show ?thesis
      by (auto simp: normalize_params_def new_dict_def deepcopy_def setitem_def
          list_update_append nth_append)
  next
    case False
    with assms Some show ?thesis
      by (auto simp: normalize_params_def new_dict_def deepcopy_def setitem_def)
  qed
qed

lemma normalize_data_frame:
  assumes "normalize_data data w = (r, w')"
  shows "\<exists>ys. heap w' = heap w @ ys \<and> w'\<lparr>heap := heap w\<rparr> = w"
  using assms
  by (cases data) (auto simp: normalize_data_def deepcopy_def setitem_def Let_def)

lemma normalize_json_frame:
  assumes "normalize_json json_arg w = (r, w')"
  shows "\<exists>ys. heap w' = heap w @ ys \<and> w'\<lparr>heap := heap w\<rparr> = w"
  using assms
  by (cases json_arg) (auto simp: normalize_json_def deepcopy_def setitem_def Let_def)

lemma normalize_data_dict:
  assumes "d < length (heap w)"
  shows "fst (normalize_data (ADict d) w)
         = AItems (sort_key fst (AList.update ''api_type'' (PStr ''json'') (heap w ! d)))"
  using assms
  by (simp add: normalize_data_def deepcopy_def setitem_def sorted_items_def Let_def nth_append)

lemma normalize_data_other:
  "(\<forall>d. data \<noteq> ADict d) \<Longrightarrow> normalize_data data w = (data, w)"
  by (cases data) (simp_all add: normalize_data_def)

lemma request_unfold:
  obtains params1 w1 data1 w2 json1 w3 where
    "normalize_params params w = (params1, w1)"
    "normalize_data data w1 = (data1, w2)"
    "normalize_json json_arg w2 = (json1, w3)"
    "request env method path data files json_arg params timeout w
       = request_with_retries env
           \<lparr>rq_data = data1, rq_files = files, rq_json = json1, rq_method = method,
            rq_params = params1, rq_timeout = timeout,
            rq_url = urljoin env (oauth_url env) path\<rparr>
           FiniteRetryStrategy_default w3"
proof -
  obtain params1 w1 where 1: "normalize_params params w = (params1, w1)"
    by (cases "normalize_params params w")
  obtain data1 w2 where 2: "normalize_data data w1 = (data1, w2)"
    by (cases "normalize_data data w1")
  obtain json1 w3 where 3: "normalize_json json_arg w2 = (json1, w3)"
    by (cases "normalize_json json_arg w2")
  show thesis
    by (rule that [OF 1 2 3]) (simp add: request_def 1 2 3)
qed

text \<open>
  C6. Whatever \<^verbatim>\<open>params\<close>, \<^verbatim>\<open>data\<close> and \<^verbatim>\<open>json\<close> are (references to dictionaries
  included), every object that existed when \<^verbatim>\<open>Session.request\<close> was called has the same
  items when the call is over, whether it returns a value or raises: the keys
  \<^verbatim>\<open>raw_json\<close> and \<^verbatim>\<open>api_type\<close> are written to copies, which are new objects at the end of
  the store.
\<close>

lemma request_leaves_caller_objects:
  "take (length (heap w)) (heap (snd (request env method path data files json_arg params timeout w)))
   = heap w"
proof -
  obtain params1 w1 data1 w2 json1 w3 where
    1: "normalize_params params w = (params1, w1)" and
    2: "normalize_data data w1 = (data1, w2)" and
    3: "normalize_json json_arg w2 = (json1, w3)" and
    r: "request env method path data files json_arg params timeout w
       = request_with_retries env
           \<lparr>rq_data = data1, rq_files = files, rq_json = json1, rq_method = method,
            rq_params = params1, rq_timeout = timeout,
            rq_url = urljoin env (oauth_url env) path\<rparr>
           FiniteRetryStrategy_default w3"
    by (rule request_unfold)
  from normalize_params_frame [OF 1] obtain ys1 where "heap w1 = heap w @ ys1" by blast
  moreover from normalize_data_frame [OF 2] obtain ys2 where "heap w2 = heap w1 @ ys2" by blast
  moreover from normalize_json_frame [OF 3] obtain ys3 where "heap w3 = heap w2 @ ys3" by blast
  ultimately show ?thesis
    by (simp add: r request_with_retries_heap)
qed

theorem request_leaves_caller_objects_witness:
  "heap (snd (request (env_const r_json) ''POST'' ''/api/submit'' (ADict 0) ANone (ADict 0)
                (Some 0) 16 (world0 True)))
     = [[(''b'', PInt 2), (''a'', PInt 1)],
        [(''b'', PInt 2), (''a'', PInt 1), (''raw_json'', PInt 1)],
        [(''b'', PInt 2), (''a'', PInt 1), (''api_type'', PStr ''json'')],
        [(''b'', PInt 2), (''a'', PInt 1), (''api_type'', PStr ''json'')]]
   \<and> fst (request (env_const r_json) ''POST'' ''/api/submit'' (ADict 0) ANone (ADict 0)
            (Some 0) 16 (world0 True)) = Inr (PDict [])
   \<and> fst (request (env_const (r_status 404)) ''POST'' ''/api/submit'' (ADict 0) ANone (ADict 0)
            (Some 0) 16 (world0 True)) = Inl (NotFound (r_status 404))
   \<and> take 1 (heap (snd (request (env_const r_json) ''POST'' ''/api/submit'' (ADict 0) ANone
                (ADict 0) (Some 0) 16 (world0 True))))
     = [[(''b'', PInt 2), (''a'', PInt 1)]]
   \<and> take 1 (heap (snd (request (env_const (r_status 404)) ''POST'' ''/api/submit'' (ADict 0)
                ANone (ADict 0) (Some 0) 16 (world0 True))))
     = [[(''b'', PInt 2), (''a'', PInt 1)]]"
proof -
  have l: "length (heap (world0 True)) = 1"
    and h: "heap (world0 True) = [[(''b'', PInt 2), (''a'', PInt 1)]]"
    by (simp_all add: world0_def)
  have e1: "request (env_const r_json) ''POST'' ''/api/submit'' (ADict 0) ANone (ADict 0)
                (Some 0) 16 (world0 True)
     = (Inr (PDict []),
        (world0 True)\<lparr>heap :=
           [[(''b'', PInt 2), (''a'', PInt 1)],
            [(''b'', PInt 2), (''a'', PInt 1), (''raw_json'', PInt 1)],
            [(''b'', PInt 2), (''a'', PInt 1), (''api_type'', PStr ''json'')],
            [(''b'', PInt 2), (''a'', PInt 1), (''api_type'', PStr ''json'')]],
          sent := [([(''Authorization'', ''bearer token'')],
             \<lparr>rq_data = AItems [(''a'', PInt 1), (''api_type'', PStr ''json''), (''b'', PInt 2)],
              rq_files = ANone, rq_json = ADict 3, rq_method = ''POST'', rq_params = 1,
              rq_timeout = 16, rq_url = ''https://oauth.reddit.com/api/submit''\<rparr>)]\<rparr>)"
    by (simp add: request_defs request_with_retries.simps run_defs example_defs)
  have e2: "fst (request (env_const (r_status 404)) ''POST'' ''/api/submit'' (ADict 0) ANone
            (ADict 0) (Some 0) 16 (world0 True)) = Inl (NotFound (r_status 404))"
    by (simp add: request_defs request_with_retries.simps run_defs example_defs)
  show ?thesis
    using request_leaves_caller_objects [of "world0 True" "env_const r_json" "''POST''"
            "''/api/submit''" "ADict 0" ANone "ADict 0" "Some 0" 16]
          request_leaves_caller_objects [of "world0 True" "env_const (r_status 404)" "''POST''"
            "''/api/submit''" "ADict 0" ANone "ADict 0" "Some 0" 16]
    by (simp add: l h e1 e2)
qed

section \<open>What the transport is handed\<close>

lemma sleep_sent: "sent (sleep env s w) = sent w"
  by (simp add: sleep_def split: option.splits)

lemma set_header_callback_sent: "set_header_callback env w = (r, w') \<Longrightarrow> sent w' = sent w"
  by (auto simp: set_header_callback_def refresh_def Let_def split: sum.splits prod.splits if_splits)

lemma rate_limiter_call_sent:
  assumes "rate_limiter_call env rq w = (r, w')"
  shows "(\<exists>e. r = Inl e \<and> sent w' = sent w)
       \<or> (\<exists>h. sent w' = sent w @ [(h, rq)] \<and> r = transport env (length (sent w)))"
proof (cases "set_header_callback env w")
  case (Pair hr wh)
  then have s: "sent wh = sent w" by (rule set_header_callback_sent)
  from assms Pair s show ?thesis
    by (cases hr) (auto simp: rate_limiter_call_def)
qed

lemma make_request_sent:
  assumes "make_request env rq s w = (r, w')"
  shows "sent w' = sent w \<or> (\<exists>h. sent w' = sent w @ [(h, rq)])"
proof (cases "rate_limiter_call env rq w")
  case (Pair rr wr)
  from rate_limiter_call_sent [OF Pair] assms Pair show ?thesis
    by (auto simp: make_request_def split: sum.splits error.splits if_splits)
qed

lemma make_request_response:
  assumes "make_request env rq s w = (Inr (Some r, sv), w')"
  shows "\<exists>h. sent w' = sent w @ [(h, rq)] \<and> transport env (length (sent w)) = Inr r"
proof (cases "rate_limiter_call env rq w")
  case (Pair rr wr)
  from rate_limiter_call_sent [OF Pair] assms Pair show ?thesis
    by (auto simp: make_request_def split: sum.splits error.splits if_splits)
qed

lemma request_with_retries_sent:
  "\<exists>hs. sent (snd (request_with_retries env rq s w)) = sent w @ map (\<lambda>h. (h, rq)) hs"
proof (induction env rq s w rule: request_with_retries.induct)
  case (1 env rq s w)
  obtain res w1 where mr: "make_request env rq s (sleep env s w) = (res, w1)"
    by (cases "make_request env rq s (sleep env s w)")
  from make_request_sent [OF mr]
  obtain hs1 where h1: "sent w1 = sent w @ map (\<lambda>h. (h, rq)) hs1"
  proof
    assume "\<And>hs1. sent w1 = sent w @ map (\<lambda>h. (h, rq)) hs1 \<Longrightarrow> thesis"
      and "sent w1 = sent (sleep env s w)"
    from this(1) [of "[]"] this(2) show thesis by (simp add: sleep_sent)
  next
    assume a: "\<And>hs1. sent w1 = sent w @ map (\<lambda>h. (h, rq)) hs1 \<Longrightarrow> thesis"
      and "\<exists>h. sent w1 = sent (sleep env s w) @ [(h, rq)]"
    then obtain h where "sent w1 = sent w @ [(h, rq)]" by (auto simp: sleep_sent)
    with a [of "[h]"] show thesis by simp
  qed
  have ext: "\<exists>hs. sent w' = sent w @ map (\<lambda>h. (h, rq)) hs"
    if "\<exists>hs. sent w' = sent w1 @ map (\<lambda>h. (h, rq)) hs" for w'
  proof -
    from that obtain hs where "sent w' = sent w1 @ map (\<lambda>h. (h, rq)) hs" by blast
    then have "sent w' = sent w @ map (\<lambda>h. (h, rq)) (hs1 @ hs)" by (simp add: h1)
    then show ?thesis by blast
  qed
  have base: "\<exists>hs. sent w1 = sent w1 @ map (\<lambda>h. (h, rq)) hs"
    by (rule exI [of _ "[]"]) simp
  show ?case
  proof (cases res)
    case (Inl e)
    then show ?thesis using mr ext [OF base] by (simp add: rwr_raise)
  next
    case (Inr p)
    obtain resp sv where p: "p = (resp, sv)" by (cases p)
    show ?thesis
    proof (cases resp)
      case None
      with 1 [OF mr [symmetric] Inr p [symmetric] refl refl refl] mr Inr p ext [OF base] ext
      show ?thesis by (auto simp: rwr_saved)
    next
      case (Some r)
      show ?thesis
      proof (cases "status_code r = unauthorized")
        case True
        have base': "\<exists>hs. sent (clear_access_token w1) = sent w1 @ map (\<lambda>h. (h, rq)) hs"
          using base by (simp add: clear_access_token_simps)
        from 1 [OF mr [symmetric] Inr p [symmetric] refl refl refl] mr Inr p Some True
          ext [OF base'] ext
        show ?thesis
          by (auto simp: rwr_response Let_def clear_access_token_simps split: option.splits)
      next
        case False
        from 1 [OF mr [symmetric] Inr p [symmetric] refl refl refl] mr Inr p Some False
          ext [OF base] ext
        show ?thesis
          by (auto simp: rwr_response Let_def split: option.splits)
      qed
    qed
  qed
qed

lemma set_update_distinct:
  "distinct (map fst al) \<Longrightarrow>
   set (AList.update k v al) = insert (k, v) {p \<in> set al. fst p \<noteq> k}"
  by (induction al) (auto simp: rev_image_eqI)

lemma sorted_items_body:
  assumes "distinct (map fst al)"
  shows "sorted (map fst (sort_key fst (AList.update k v al)))
       \<and> distinct (map fst (sort_key fst (AList.update k v al)))
       \<and> set (sort_key fst (AList.update k v al)) = insert (k, v) {p \<in> set al. fst p \<noteq> k}"
proof -
  have d: "distinct (map fst (AList.update k v al))"
    using assms by (rule distinct_update)
  have "distinct (map fst (sort_key fst (AList.update k v al)))"
    using d by (simp add: distinct_map)
  then show ?thesis
    using assms by (simp add: set_update_distinct)
qed

text \<open>
  C7. When \<^verbatim>\<open>data\<close> refers to a dictionary (a valid reference; the keys of a
  dictionary are distinct), every call that \<^verbatim>\<open>Session.request\<close> hands to the transport
  carries the same arguments, and their \<^verbatim>\<open>data\<close> is a list of pairs, sorted by key with
  distinct keys, that consists of the pair \<^verbatim>\<open>("api_type", "json")\<close> and the items of the
  dictionary under every other key (the injected key replaces an item the caller gave
  under \<^verbatim>\<open>api_type\<close>). Any \<^verbatim>\<open>data\<close> that is not a dictionary is handed on as it is. On
  the dictionary \<^verbatim>\<open>{"b": 2, "a": 1}\<close> the call sends
  \<^verbatim>\<open>[("a", 1), ("api_type", "json"), ("b", 2)]\<close>.
\<close>

theorem request_data_sorted:
  "(d < length (heap w) \<and> distinct (map fst (heap w ! d)) \<longrightarrow>
      (\<exists>hs rq w' body.
          request env method path (ADict d) files json_arg params timeout w
            = request_with_retries env rq FiniteRetryStrategy_default w'
        \<and> sent w' = sent w
        \<and> sent (snd (request env method path (ADict d) files json_arg params timeout w))
            = sent w @ map (\<lambda>h. (h, rq)) hs
        \<and> rq_data rq = AItems body
        \<and> sorted (map fst body) \<and> distinct (map fst body)
        \<and> set body = insert (''api_type'', PStr ''json'')
                       {p \<in> set (heap w ! d). fst p \<noteq> ''api_type''}))
   \<and> ((\<forall>d'. data \<noteq> ADict d') \<longrightarrow>
      (\<exists>hs rq w'.
          request env method path data files json_arg params timeout w
            = request_with_retries env rq FiniteRetryStrategy_default w'
        \<and> sent w' = sent w
        \<and> sent (snd (request env method path data files json_arg params timeout w))
            = sent w @ map (\<lambda>h. (h, rq)) hs
        \<and> rq_data rq = data))"
proof (intro conjI impI)
  assume a: "d < length (heap w) \<and> distinct (map fst (heap w ! d))"
  obtain params1 w1 data1 w2 json1 w3 where
    1: "normalize_params params w = (params1, w1)" and
    2: "normalize_data (ADict d) w1 = (data1, w2)" and
    3: "normalize_json json_arg w2 = (json1, w3)" and
    r: "request env method path (ADict d) files json_arg params timeout w
       = request_with_retries env
           \<lparr>rq_data = data1, rq_files = files, rq_json = json1, rq_method = method,
            rq_params = params1, rq_timeout = timeout,
            rq_url = urljoin env (oauth_url env) path\<rparr>
           FiniteRetryStrategy_default w3"
    by (rule request_unfold)
  let ?rq = "\<lparr>rq_data = data1, rq_files = files, rq_json = json1, rq_method = method,
            rq_params = params1, rq_timeout = timeout,
            rq_url = urljoin env (oauth_url env) path\<rparr>"
  let ?body = "sort_key fst (AList.update ''api_type'' (PStr ''json'') (heap w ! d))"
  from normalize_params_frame [OF 1] obtain ys1 where
    h1: "heap w1 = heap w @ ys1" and s1: "w1\<lparr>heap := heap w\<rparr> = w" by blast
  from normalize_data_frame [OF 2] have s2: "w2\<lparr>heap := heap w1\<rparr> = w1" by blast
  from normalize_json_frame [OF 3] have s3: "w3\<lparr>heap := heap w2\<rparr> = w2" by blast
  have sent3: "sent w3 = sent w"
    using arg_cong [OF s1, of sent] arg_cong [OF s2, of sent] arg_cong [OF s3, of sent]
    by simp
  have d1: "d < length (heap w1)" and nth1: "heap w1 ! d = heap w ! d"
    using a by (simp_all add: h1 nth_append)
  have data1: "data1 = AItems ?body"
    using normalize_data_dict [OF d1] 2 by (simp add: nth1)
  obtain hs where hs: "sent (snd (request_with_retries env ?rq FiniteRetryStrategy_default w3))
      = sent w3 @ map (\<lambda>h. (h, ?rq)) hs"
    using request_with_retries_sent by blast
  have "request env method path (ADict d) files json_arg params timeout w
            = request_with_retries env ?rq FiniteRetryStrategy_default w3
        \<and> sent w3 = sent w
        \<and> sent (snd (request env method path (ADict d) files json_arg params timeout w))
              = sent w @ map (\<lambda>h. (h, ?rq)) hs
        \<and> rq_data ?rq = AItems ?body
        \<and> sorted (map fst ?body) \<and> distinct (map fst ?body)
        \<and> set ?body = insert (''api_type'', PStr ''json'')
                         {p \<in> set (heap w ! d). fst p \<noteq> ''api_type''}"
    using sorted_items_body [of "heap w ! d"] a hs by (simp add: r sent3 data1)
  then show "\<exists>hs rq w' body.
          request env method path (ADict d) files json_arg params timeout w
            = request_with_retries env rq FiniteRetryStrategy_default w'
        \<and> sent w' = sent w
        \<and> sent (snd (request env method path (ADict d) files json_arg params timeout w))
            = sent w @ map (\<lambda>h. (h, rq)) hs
        \<and> rq_data rq = AItems body
        \<and> sorted (map fst body) \<and> distinct (map fst body)
        \<and> set body = insert (''api_type'', PStr ''json'')
                       {p \<in> set (heap w ! d). fst p \<noteq> ''api_type''}"
    by blast
next
  assume nd: "\<forall>d'. data \<noteq> ADict d'"
  obtain params1 w1 data1 w2 json1 w3 where
    1: "normalize_params params w = (params1, w1)" and
    2: "normalize_data data w1 = (data1, w2)" and
    3: "normalize_json json_arg w2 = (json1, w3)" and
    r: "request env method path data files json_arg params timeout w
       = request_with_retries env
           \<lparr>rq_data = data1, rq_files = files, rq_json = json1, rq_method = method,
            rq_params = params1, rq_timeout = timeout,
            rq_url = urljoin env (oauth_url env) path\<rparr>
           FiniteRetryStrategy_default w3"
    by (rule request_unfold)
  let ?rq = "\<lparr>rq_data = data1, rq_files = files, rq_json = json1, rq_method = method,
            rq_params = params1, rq_timeout = timeout,
            rq_url = urljoin env (oauth_url env) path\<rparr>"
  from normalize_params_frame [OF 1] have s1: "w1\<lparr>heap := heap w\<rparr> = w" by blast
  from normalize_data_other [OF nd, of w1] 2 have data1: "data1 = data" and w2: "w2 = w1"
    by simp_all
  from normalize_json_frame [OF 3] have s3: "w3\<lparr>heap := heap w2\<rparr> = w2" by blast
  have sent3: "sent w3 = sent w"
    using arg_cong [OF s1, of sent] arg_cong [OF s3, of sent] by (simp add: w2)
  obtain hs where hs: "sent (snd (request_with_retries env ?rq FiniteRetryStrategy_default w3))
      = sent w3 @ map (\<lambda>h. (h, ?rq)) hs"
    using request_with_retries_sent by blast
  have "request env method path data files json_arg params timeout w
            = request_with_retries env ?rq FiniteRetryStrategy_default w3
        \<and> sent w3 = sent w
        \<and> sent (snd (request env method path data files json_arg params timeout w))
              = sent w @ map (\<lambda>h. (h, ?rq)) hs
        \<and> rq_data ?rq = data"
    using hs by (simp add: r sent3 data1)
  then show "\<exists>hs rq w'.
          request env method path data files json_arg params timeout w
            = request_with_retries env rq FiniteRetryStrategy_default w'
        \<and> sent w' = sent w
        \<and> sent (snd (request env method path data files json_arg params timeout w))
            = sent w @ map (\<lambda>h. (h, rq)) hs
        \<and> rq_data rq = data"
    by blast
qed

theorem request_data_sorted_witness:
  "0 < length (heap (world0 True))
   \<and> distinct (map fst (heap (world0 True) ! 0))
   \<and> (\<exists>hs rq w' body.
         request (env_const (r_status 200)) ''POST'' ''/api/submit'' (ADict 0) ANone ANone None
           16 (world0 True)
           = request_with_retries (env_const (r_status 200)) rq FiniteRetryStrategy_default w'
       \<and> sent w' = sent (world0 True)
       \<and> sent (snd (request (env_const (r_status 200)) ''POST'' ''/api/submit'' (ADict 0) ANone
                      ANone None 16 (world0 True)))
           = sent (world0 True) @ map (\<lambda>h. (h, rq)) hs
       \<and> rq_data rq = AItems body
       \<and> sorted (map fst body) \<and> distinct (map fst body)
       \<and> set body = insert (''api_type'', PStr ''json'')
                      {p \<in> set (heap (world0 True) ! 0). fst p \<noteq> ''api_type''})
   \<and> (\<forall>d'. AOther (PStr ''raw'') \<noteq> ADict d')
   \<and> (\<exists>hs rq w'.
         request (env_const (r_status 200)) ''POST'' ''/api/submit'' (AOther (PStr ''raw''))
           ANone ANone None 16 (world0 True)
           = request_with_retries (env_const (r_status 200)) rq FiniteRetryStrategy_default w'
       \<and> sent w' = sent (world0 True)
       \<and> sent (snd (request (env_const (r_status 200)) ''POST'' ''/api/submit''
                      (AOther (PStr ''raw'')) ANone ANone None 16 (world0 True)))
           = sent (world0 True) @ map (\<lambda>h. (h, rq)) hs
       \<and> rq_data rq = AOther (PStr ''raw''))
   \<and> sent (snd (request (env_const (r_status 200)) ''POST'' ''/api/submit'' (ADict 0) ANone ANone
            None 16 (world0 True)))
     = [([(''Authorization'', ''bearer token'')],
       \<lparr>rq_data = AItems [(''a'', PInt 1), (''api_type'', PStr ''json''), (''b'', PInt 2)],
        rq_files = ANone, rq_json = ANone, rq_method = ''POST'', rq_params = 1,
        rq_timeout = 16, rq_url = ''https://oauth.reddit.com/api/submit''\<rparr>)]
   \<and> sent (snd (request (env_const (r_status 200)) ''POST'' ''/api/submit'' (AOther (PStr ''raw''))
            ANone ANone None 16 (world0 True)))
     = [([(''Authorization'', ''bearer token'')],
       \<lparr>rq_data = AOther (PStr ''raw''),
        rq_files = ANone, rq_json = ANone, rq_method = ''POST'', rq_params = 1,
        rq_timeout = 16, rq_url = ''https://oauth.reddit.com/api/submit''\<rparr>)]"
proof -
  have h: "0 < length (heap (world0 True)) \<and> distinct (map fst (heap (world0 True) ! 0))"
    by (simp add: world0_def)
  have n: "\<forall>d'. AOther (PStr ''raw'') \<noteq> ADict d'" by simp
  note t = request_data_sorted [of 0 "world0 True" "env_const (r_status 200)" "''POST''"
      "''/api/submit''" ANone ANone None 16 "AOther (PStr ''raw'')"]
  note c1 = t [THEN conjunct1, THEN mp, OF h]
  note c2 = t [THEN conjunct2, THEN mp, OF n]
  have e1: "sent (snd (request (env_const (r_status 200)) ''POST'' ''/api/submit'' (ADict 0) ANone
            ANone None 16 (world0 True)))
     = [([(''Authorization'', ''bearer token'')],
       \<lparr>rq_data = AItems [(''a'', PInt 1), (''api_type'', PStr ''json''), (''b'', PInt 2)],
        rq_files = ANone, rq_json = ANone, rq_method = ''POST'', rq_params = 1,
        rq_timeout = 16, rq_url = ''https://oauth.reddit.com/api/submit''\<rparr>)]"
    by (simp add: request_defs request_with_retries.simps run_defs example_defs)
  have e2: "sent (snd (request (env_const (r_status 200)) ''POST'' ''/api/submit''
            (AOther (PStr ''raw'')) ANone ANone None 16 (world0 True)))
     = [([(''Authorization'', ''bearer token'')],
       \<lparr>rq_data = AOther (PStr ''raw''),
        rq_files = ANone, rq_json = ANone, rq_method = ''POST'', rq_params = 1,
        rq_timeout = 16, rq_url = ''https://oauth.reddit.com/api/submit''\<rparr>)]"
    by (simp add: request_defs request_with_retries.simps run_defs example_defs)
  from h [THEN conjunct1] h [THEN conjunct2] c1 n c2 e1 e2 show ?thesis by (intro conjI)
qed

section \<open>Status 401\<close>




text \<open>
  C10. When a response with status 401 arrives and the strategy does not permit a retry
  (\<open>retries \<le> 1\<close>), then, whether or not the authorizer has \<^verbatim>\<open>refresh\<close>, the token is
  cleared by one call of \<^verbatim>\<open>_clear_access_token\<close>, the error of the 401 entry of
  \<^verbatim>\<open>STATUS_EXCEPTIONS\<close> is raised with the response, and this call of
  \<^verbatim>\<open>_request_with_retries\<close> has made exactly one call of the transport.
\<close>

theorem unauthorized_exhausted_raises:
  assumes "make_request env rq s (sleep env s w) = (Inr (Some r, sv), w1)"
    and "status_code r = 401"
    and "retries s \<le> 1"
  shows "request_with_retries env rq s w = (Inl (AuthorizationError r), clear_access_token w1)
       \<and> access_token (the_authorizer (clear_access_token w1)) = None
       \<and> clear_calls (clear_access_token w1) = Suc (clear_calls w1)
       \<and> length (sent (snd (request_with_retries env rq s w))) = Suc (length (sent w))"
proof -
  from make_request_response [OF assms(1)] obtain h where
    "sent w1 = sent (sleep env s w) @ [(h, rq)]" by blast
  then have "length (sent w1) = Suc (length (sent w))" by (simp add: sleep_sent)
  then show ?thesis
    using assms(3)
    by (simp add: rwr_unauthorized [OF assms(1,2)] clear_access_token_simps should_retry_on_failure_def)
qed

theorem unauthorized_exhausted_raises_witness:
  "status_code (r_status 401) = 401
   \<and> retries (FiniteRetryStrategy_init 1) \<le> 1
   \<and> has_refresh (the_authorizer (world0 True))
   \<and> request_with_retries (env_const (r_status 401)) rq0 (FiniteRetryStrategy_init 1) (world0 True)
     = (Inl (AuthorizationError (r_status 401)),
        clear_access_token
          (sent_once (sleep (env_const (r_status 401)) (FiniteRetryStrategy_init 1) (world0 True))))
   \<and> length (sent (snd (request_with_retries (env_const (r_status 401)) rq0
         (FiniteRetryStrategy_init 1) (world0 True)))) = Suc (length (sent (world0 True)))"
proof -
  have s: "status_code (r_status 401) = 401" by (simp add: r_status_def)
  have r: "retries (FiniteRetryStrategy_init 1) \<le> 1" by (simp add: FiniteRetryStrategy_init_def)
  have h: "has_refresh (the_authorizer (world0 True))" by (simp add: world0_def)
  note t = unauthorized_exhausted_raises
            [OF make_request_example [of "r_status 401" "FiniteRetryStrategy_init 1" True] s r]
  from s r h t [THEN conjunct1] t [THEN conjunct2, THEN conjunct2, THEN conjunct2]
  show ?thesis by (intro conjI)
qed

section \<open>Terminal classification\<close>

text \<open>
  C4 (as the code has it). The key \<^verbatim>\<open>codes["too_many_requests"]\<close> of
  \<^verbatim>\<open>STATUS_EXCEPTIONS\<close> is 429: a response with status 429 is never retried and makes
  the request raise \<^verbatim>\<open>TooManyRequests\<close> with the response attached.
\<close>

theorem too_many_requests_429:
  assumes "make_request env rq s (sleep env s w) = (Inr (Some r, sv), w1)"
    and "status_code r = 429"
  shows "request_with_retries env rq s w = (Inl (TooManyRequests r), w1)"
proof -
  have "status_code r \<noteq> 401" and "status_code r \<notin> RETRY_STATUSES"
    using assms(2) by (simp_all add: RETRY_STATUSES_def codes)
  then show ?thesis
    using assms(2) by (simp add: rwr_terminal [OF assms(1)] STATUS_EXCEPTIONS_def codes)
qed

theorem too_many_requests_429_witness:
  "status_code (r_status 429) = 429
   \<and> request_with_retries (env_const (r_status 429)) rq0 FiniteRetryStrategy_default (world0 True)
     = (Inl (TooManyRequests (r_status 429)),
        sent_once (sleep (env_const (r_status 429)) FiniteRetryStrategy_default (world0 True)))"
proof -
  have s: "status_code (r_status 429) = 429" by (simp add: r_status_def)
  show ?thesis
    using too_many_requests_429
            [OF make_request_example [of "r_status 429" FiniteRetryStrategy_default True] s] s
    by simp
qed

text \<open>
  C4 (as the specification words it) fails: status 420 has no entry in
  \<^verbatim>\<open>STATUS_EXCEPTIONS\<close>; a response with status 420 fails the final assertion on the
  success statuses.
\<close>

theorem too_many_requests_420_counterexample:
  "request_with_retries (env_const (r_status 420)) rq0 FiniteRetryStrategy_default (world0 True)
   = (Inl (AssertionError 420), sent_once (world0 True))"
  by (simp add: request_with_retries.simps run_defs example_defs)

text \<open>
  C5 (as the code has it). For a response with status 200, 201 or 202: if its header
  \<^verbatim>\<open>content-length\<close> is the string \<^verbatim>\<open>0\<close>, the request returns the empty string;
  otherwise it returns what \<^verbatim>\<open>response.json()\<close> decodes, and raises \<^verbatim>\<open>BadJSON\<close> with the
  response when \<^verbatim>\<open>json()\<close> raises \<^verbatim>\<open>ValueError\<close>.
\<close>

theorem success_content_length:
  assumes "make_request env rq s (sleep env s w) = (Inr (Some r, sv), w1)"
    and "status_code r \<in> {200, 201, 202}"
  shows "request_with_retries env rq s w =
       (if headers_get r ''content-length'' = Some ''0'' then Inr (PStr '''')
        else (case json r of Some decoded \<Rightarrow> Inr decoded | None \<Rightarrow> Inl (BadJSON r)),
        w1)"
proof -
  have "status_code r \<noteq> 401" and "status_code r \<notin> RETRY_STATUSES"
    using assms(2) by (auto simp: RETRY_STATUSES_def codes)
  then show ?thesis
    using assms(2)
    by (auto simp: rwr_terminal [OF assms(1)] STATUS_EXCEPTIONS_def codes split: option.splits)
qed

theorem success_content_length_witness:
  "status_code r_empty \<in> {200, 201, 202} \<and> status_code r_json \<in> {200, 201, 202}
   \<and> status_code (r_status 202) \<in> {200, 201, 202}
   \<and> fst (request_with_retries (env_const r_empty) rq0 FiniteRetryStrategy_default (world0 True))
     = Inr (PStr '''')
   \<and> fst (request_with_retries (env_const r_json) rq0 FiniteRetryStrategy_default (world0 True))
     = Inr (PDict [])
   \<and> fst (request_with_retries (env_const (r_status 202)) rq0 FiniteRetryStrategy_default
            (world0 True))
     = Inl (BadJSON (r_status 202))"
proof -
  have s: "status_code r_empty \<in> {200, 201, 202}" "status_code r_json \<in> {200, 201, 202}"
    "status_code (r_status 202) \<in> {200, 201, 202}"
    by (simp_all add: r_empty_def r_json_def r_status_def)
  show ?thesis
    using success_content_length
            [OF make_request_example [of r_empty FiniteRetryStrategy_default True] s(1)]
          success_content_length
            [OF make_request_example [of r_json FiniteRetryStrategy_default True] s(2)]
          success_content_length
            [OF make_request_example [of "r_status 202" FiniteRetryStrategy_default True] s(3)] s
    by (simp add: headers_get_def r_empty_def r_json_def r_status_def)
qed

text \<open>
  C5 (as the specification words it) fails: the code looks at the header, not at the
  body. A response with status 200, an empty body and no \<^verbatim>\<open>content-length\<close> header (so
  that \<^verbatim>\<open>json()\<close> raises on the empty body) makes the request raise \<^verbatim>\<open>BadJSON\<close> instead of
  returning the empty string.
\<close>

theorem empty_body_counterexample:
  "status_code (r_status 200) = 200
   \<and> length (content (r_status 200)) = 0
   \<and> request_with_retries (env_const (r_status 200)) rq0 FiniteRetryStrategy_default (world0 True)
     = (Inl (BadJSON (r_status 200)), sent_once (world0 True))"
  by (simp add: request_with_retries.simps run_defs example_defs)

section \<open>Retryable statuses\<close>

text \<open>
  A response whose status is in \<^verbatim>\<open>RETRY_STATUSES\<close> is retried while the strategy
  permits. Once it does not, the statuses 500, 502, 503, 504, 520 and 522 raise
  \<^verbatim>\<open>ServerError\<close>; status 408 has no entry in \<^verbatim>\<open>STATUS_EXCEPTIONS\<close> and fails the
  assertion on the success statuses.
\<close>

lemma retry_status_outcome:
  assumes "make_request env rq s (sleep env s w) = (Inr (Some r, sv), w1)"
    and "status_code r \<in> {502, 504, 500, 408, 503, 520, 522}"
  shows "(should_retry_on_failure s \<longrightarrow>
            request_with_retries env rq s w
              = request_with_retries env rq (consume_available_retry s) w1)
       \<and> (\<not> should_retry_on_failure s \<and> status_code r \<noteq> 408 \<longrightarrow>
            request_with_retries env rq s w = (Inl (ServerError r), w1))
       \<and> (\<not> should_retry_on_failure s \<and> status_code r = 408 \<longrightarrow>
            request_with_retries env rq s w = (Inl (AssertionError 408), w1))"
proof -
  have n: "status_code r \<noteq> unauthorized" and i: "status_code r \<in> RETRY_STATUSES"
    using assms(2) by (auto simp: RETRY_STATUSES_def codes)
  show ?thesis
    using assms(2) n i
    by (auto simp: rwr_response [OF assms(1)] STATUS_EXCEPTIONS_def SUCCESS_STATUSES_def codes)
qed

text \<open>
  C3, at the input where the code departs from it: the default strategy and a server
  that answers every attempt with status 408. \<^verbatim>\<open>Session.request\<close> sleeps twice, makes
  three calls and raises \<^verbatim>\<open>AssertionError\<close>, where the claim has \<^verbatim>\<open>ServerError\<close>.
\<close>

theorem request_timeout_exhausted:
  "request (env_const (r_status 408)) ''GET'' ''/api/v1/me'' ANone ANone ANone None 16
     (world0 True)
   = (Inl (AssertionError 408),
      (world0 True)\<lparr>heap := heap (world0 True) @ [[(''raw_json'', PInt 1)]],
         slept := [1, 3],
         sent := replicate 3
           ([(''Authorization'', ''bearer token'')],
            \<lparr>rq_data = ANone, rq_files = ANone, rq_json = ANone, rq_method = ''GET'',
             rq_params = 1, rq_timeout = 16,
             rq_url = ''https://oauth.reddit.com/api/v1/me''\<rparr>)\<rparr>)"
  by (simp add: request_defs request_with_retries.simps run_defs example_defs
      numeral_3_eq_3)

end
